theory Spec2Isabelle
  imports Complex_Main "HOL-Library.Log_Nat"
begin

section \<open>The worker-message reducer of \<^verbatim>\<open>react-client/src/App.tsx\<close>\<close>

text \<open>
  The file holds two functions: \<^verbatim>\<open>reducer\<close>, which folds one message of the data worker
  into the \<^verbatim>\<open>WorkerDataState\<close> record, and the \<^verbatim>\<open>dataWorker.onmessage\<close> handler installed by
  \<^verbatim>\<open>App\<close>, which forwards the worker's messages to the reducer and to the metadata setter.
  Both are written with the pattern-matching library \<^verbatim>\<open>ts-pattern\<close>.  A JavaScript string is
  modelled as a \<^typ>\<open>string\<close>, one \<^typ>\<open>char\<close> per code unit; a JavaScript array as a list.
  The reducer never computes with \<^verbatim>\<open>progress\<close>, it only stores it, so the field is a
  \<^typ>\<open>real\<close>.
\<close>

subsection \<open>Data\<close>

text \<open>The interface \<^verbatim>\<open>WorkerDataState\<close> (lines 14 to 20).\<close>

record WorkerDataState =
  progress :: real
  chunk :: "string list list"
  header :: "string list"
  names :: "string list"
  result :: string

text \<open>
  Modelled from the spec: the union type \<^verbatim>\<open>WorkerRecMessage\<close>, declared in
  \<^verbatim>\<open>worker.interface\<close>, which is not part of the sources.  The spec gives the six variants
  \<^verbatim>\<open>parsing{progress}\<close>, \<^verbatim>\<open>chunk\<close>, \<^verbatim>\<open>header\<close>, \<^verbatim>\<open>sumCol\<close>, \<^verbatim>\<open>names\<close> and \<^verbatim>\<open>addFilter{names}\<close>, each an
  object \<^verbatim>\<open>{type, payload}\<close>.  \<open>Other t\<close> stands for an object whose \<^verbatim>\<open>type\<close> field \<open>t\<close> is none
  of the six tags, whatever else it carries: the code never looks inside such a message.
\<close>

datatype WorkerRecMessage =
    Parsing real
  | Chunk "string list"
  | Header "string list"
  | SumCol string
  | Names "string list"
  | AddFilter "string list"
  | Other string

text \<open>The \<^verbatim>\<open>type\<close> field of a message.\<close>

fun msg_type :: "WorkerRecMessage \<Rightarrow> string" where
  "msg_type (Parsing p) = ''parsing''"
| "msg_type (Chunk payload) = ''chunk''"
| "msg_type (Header payload) = ''header''"
| "msg_type (SumCol payload) = ''sumCol''"
| "msg_type (Names payload) = ''names''"
| "msg_type (AddFilter ns) = ''addFilter''"
| "msg_type (Other t) = t"

text \<open>
  \<^verbatim>\<open>match(v) ... .run()\<close> of \<^verbatim>\<open>ts-pattern\<close> throws when no \<^verbatim>\<open>with\<close> clause matches \<^verbatim>\<open>v\<close>;
  the error reports the value that was not matched.
\<close>

datatype error = PatternMatchingError WorkerRecMessage

subsection \<open>The string operations of the platform\<close>

text \<open>
  \<^verbatim>\<open>String.prototype.split(separator)\<close> with a string separator and no limit.  For a
  non-empty separator the string is scanned from the left; at each occurrence of the
  separator the piece read so far is emitted and the scan resumes behind the occurrence,
  so occurrences do not overlap, and the rest of the string is the last piece.  The result
  of splitting the empty string is the one-element array holding the empty string.
  \<open>split_from sep cur s\<close> is that scan, with \<open>cur\<close> the piece read so far and \<open>s\<close> the
  text still to read.
\<close>

function split_from :: "string \<Rightarrow> string \<Rightarrow> string \<Rightarrow> string list" where
  "split_from sep cur [] = [cur]"
| "split_from sep cur (c # cs) =
     (if sep \<noteq> [] \<and> take (length sep) (c # cs) = sep
      then cur # split_from sep [] (drop (length sep) (c # cs))
      else split_from sep (cur @ [c]) cs)"
  by pat_completeness auto
termination
  by (relation "measure (\<lambda>(sep, cur, s). length s)") auto

text \<open>With the empty separator \<^verbatim>\<open>split\<close> returns the code units of the string, one by one.\<close>

definition split_string :: "string \<Rightarrow> string \<Rightarrow> string list" where
  "split_string s separator =
     (if separator = [] then map (\<lambda>c. [c]) s else split_from separator [] s)"

text \<open>
  \<^verbatim>\<open>Array.prototype.join(separator)\<close> on an array of strings: the elements in order, with
  the separator between neighbours; the empty array gives the empty string.
\<close>

fun join :: "string list \<Rightarrow> string \<Rightarrow> string" where
  "join [] separator = []"
| "join [x] separator = x"
| "join (x # y # ys) separator = x @ separator @ join (y # ys) separator"

subsection \<open>The reducer (lines 25 to 44)\<close>

definition DELIMITER_TOKEN :: string where
  "DELIMITER_TOKEN = ''DELIMITER_TOKEN''"

text \<open>
  One equation per \<^verbatim>\<open>with\<close> clause, in the order of the source; \<open>state\<lparr>f := v\<rparr>\<close> is the
  object spread \<^verbatim>\<open>{ ...state, f }\<close>.  The last two equations are \<^verbatim>\<open>.run()\<close> finding no clause.
\<close>

fun reducer :: "WorkerDataState \<Rightarrow> WorkerRecMessage \<Rightarrow> error + WorkerDataState" where
  "reducer state (Parsing progress') = Inr (state\<lparr>progress := progress'\<rparr>)"
| "reducer state (Chunk payload) =
     (let chunk' = map (\<lambda>column. split_string column DELIMITER_TOKEN) payload
      in Inr (state\<lparr>chunk := chunk'\<rparr>))"
| "reducer state (Header header') = Inr (state\<lparr>header := header'\<rparr>)"
| "reducer state (SumCol result') = Inr (state\<lparr>result := result'\<rparr>)"
| "reducer state (Names names') = Inr (state\<lparr>names := names'\<rparr>)"
| "reducer state (AddFilter ns) = Inl (PatternMatchingError (AddFilter ns))"
| "reducer state (Other t) = Inl (PatternMatchingError (Other t))"

text \<open>
  The messages the reducer has a clause for: the five variants of its \<^verbatim>\<open>with\<close> chain.
\<close>

fun reducer_variant :: "WorkerRecMessage \<Rightarrow> bool" where
  "reducer_variant (Parsing p) = True"
| "reducer_variant (Chunk payload) = True"
| "reducer_variant (Header payload) = True"
| "reducer_variant (SumCol payload) = True"
| "reducer_variant (Names payload) = True"
| "reducer_variant (AddFilter ns) = False"
| "reducer_variant (Other t) = False"

text \<open>The initial state handed to \<^verbatim>\<open>React.useReducer\<close> (lines 53 to 59).\<close>

definition initialState :: WorkerDataState where
  "initialState = \<lparr>progress = 0, chunk = [], header = [], names = [], result = []\<rparr>"

text \<open>
  The reducer folded over the messages dispatched so far, in arrival order.  An error
  thrown by the reducer ends the fold, as the exception ends the render.
\<close>

fun reduce_all :: "WorkerDataState \<Rightarrow> WorkerRecMessage list \<Rightarrow> error + WorkerDataState" where
  "reduce_all state [] = Inr state"
| "reduce_all state (action # actions) =
     (case reducer state action of
        Inl e \<Rightarrow> Inl e
      | Inr state' \<Rightarrow> reduce_all state' actions)"

subsection \<open>The component state and the message handler (lines 46 to 93)\<close>

text \<open>
  Modelled from the spec: the interface \<^verbatim>\<open>Metadata\<close>, declared in
  \<^verbatim>\<open>components.interface\<close>, which is not part of the sources.  The spec gives its fields as
  \<^verbatim>\<open>headerChecked: bool\<close>, \<^verbatim>\<open>headerCheckBoxDisabled: bool\<close> and \<^verbatim>\<open>selectedId: integer\<close>; the
  initial value is in the source (lines 48 to 52).  \<open>selectedId\<close> is a JavaScript number that
  holds an integer: it starts at the literal \<^verbatim>\<open>0\<close> and the source only ever adds 1 to it.  The
  field is the integer held; the arithmetic on it is that of the number type, below.
\<close>

record Metadata =
  headerChecked :: bool
  headerCheckBoxDisabled :: bool
  selectedId :: int

text \<open>
  A JavaScript number is an IEEE 754 binary64 value: a significand of 53 binary digits and
  a power of two.  An integer of magnitude up to \<open>2 ^ 53\<close> is held exactly; a larger one is held
  only if it is a multiple of the power of two \<open>ulp\<close> that leaves it 53 significant digits.
  \<open>binary64 x\<close> is the integer held nearest to the integer \<open>x\<close>, the one with the even
  significand when \<open>x\<close> lies half way between two (round to nearest, ties to even);
  \<^term>\<open>bitlen a\<close> is the number of binary digits of \<open>a\<close>.
\<close>

definition binary64 :: "int \<Rightarrow> int" where
  "binary64 x =
     (let e = bitlen \<bar>x\<bar> - 53 in
      if e \<le> 0 then x
      else
        let ulp = 2 ^ nat e;
            q = \<bar>x\<bar> div ulp;
            r = \<bar>x\<bar> mod ulp;
            q' = (if 2 * r < ulp then q
                  else if ulp < 2 * r then q + 1
                  else if even q then q else q + 1)
        in sgn x * (q' * ulp))"

text \<open>
  The operator \<^verbatim>\<open>+\<close> on two numbers that hold integers: the exact sum, rounded to the
  number type.
\<close>

definition number_add :: "int \<Rightarrow> int \<Rightarrow> int" where
  "number_add x y = binary64 (x + y)"

text \<open>
  What \<^verbatim>\<open>App\<close> holds between two renders: the three hook states, and the lines written to
  the console.  \<^verbatim>\<open>DataStatus\<close> is a union of string literals, of which the source shows
  \<^verbatim>\<open>"Empty"\<close>.
\<close>

record App =
  dataStatus :: string
  metadata :: Metadata
  state :: WorkerDataState
  console :: "string list"

definition initialApp :: App where
  "initialApp =
     \<lparr>dataStatus = ''Empty'',
      metadata = \<lparr>headerChecked = True, headerCheckBoxDisabled = False, selectedId = 0\<rparr>,
      state = initialState,
      console = []\<rparr>"

definition setMetadata :: "Metadata \<Rightarrow> App \<Rightarrow> App" where
  "setMetadata input app = app\<lparr>metadata := input\<rparr>"

text \<open>\<^verbatim>\<open>dispatch\<close> of \<^verbatim>\<open>useReducer\<close>: the next reducer state is \<^verbatim>\<open>reducer(state, action)\<close>.\<close>

definition dispatch :: "WorkerRecMessage \<Rightarrow> App \<Rightarrow> error + App" where
  "dispatch action app =
     (case reducer (state app) action of
        Inl e \<Rightarrow> Inl e
      | Inr state' \<Rightarrow> Inr (app\<lparr>state := state'\<rparr>))"

definition console_log :: "string \<Rightarrow> App \<Rightarrow> App" where
  "console_log line app = app\<lparr>console := console app @ [line]\<rparr>"

text \<open>
  The handler assigned to \<^verbatim>\<open>dataWorker.onmessage\<close> by the render that saw \<open>app\<close>: in its body
  \<^verbatim>\<open>metadata\<close> is the metadata of that render.  One equation per clause, in the order of the
  source; the last is \<^verbatim>\<open>.otherwise\<close>.  The \<^verbatim>\<open>addFilter\<close> clause makes two updates,
  \<^verbatim>\<open>setMetadata\<close> and \<^verbatim>\<open>dispatch\<close>; they write different hook states, so the result does not
  depend on the order in which they are applied.
\<close>

fun onmessage :: "App \<Rightarrow> WorkerRecMessage \<Rightarrow> error + App" where
  "onmessage app (Chunk payload) = dispatch (Chunk payload) app"
| "onmessage app (Header payload) = dispatch (Header payload) app"
| "onmessage app (Parsing payload) = dispatch (Parsing payload) app"
| "onmessage app (SumCol payload) = dispatch (SumCol payload) app"
| "onmessage app (Names payload) = dispatch (Names payload) app"
| "onmessage app (AddFilter names') =
     dispatch (Names names')
       (setMetadata ((metadata app)\<lparr>selectedId := number_add (selectedId (metadata app)) 1\<rparr>) app)"
| "onmessage app (Other t) = Inr (console_log ''Unexpected action'' app)"

section \<open>Properties\<close>

subsection \<open>Splitting and joining\<close>

lemma split_from_not_Nil: "split_from sep cur s \<noteq> []"
  by (induction sep cur s rule: split_from.induct) auto

lemma join_Cons: "xs \<noteq> [] \<Longrightarrow> join (x # xs) sep = x @ sep @ join xs sep"
  by (cases xs) auto

text \<open>
  The scan loses nothing: the pieces, joined on the separator, are the piece in hand
  followed by the text that was still to read.
\<close>

lemma join_split_from: "join (split_from sep cur s) sep = cur @ s"
proof (induction sep cur s rule: split_from.induct)
  case (1 sep cur)
  show ?case by simp
next
  case (2 sep cur c cs)
  show ?case
  proof (cases "sep \<noteq> [] \<and> take (length sep) (c # cs) = sep")
    case True
    then have "join (split_from sep cur (c # cs)) sep
        = cur @ sep @ join (split_from sep [] (drop (length sep) (c # cs))) sep"
      by (simp add: join_Cons split_from_not_Nil)
    also have "\<dots> = cur @ sep @ drop (length sep) (c # cs)"
      using 2(1) True by simp
    also have "\<dots> = cur @ (take (length sep) (c # cs) @ drop (length sep) (c # cs))"
      using True by simp
    finally show ?thesis by (simp only: append_take_drop_id)
  next
    case False
    then show ?thesis using 2(2) by auto
  qed
qed

lemma join_code_units: "join (map (\<lambda>c. [c]) s) [] = s"
  by (induction s rule: induct_list012) auto

lemma join_split_string: "join (split_string s sep) sep = s"
  by (simp add: split_string_def join_split_from join_code_units)

subsection \<open>Addition on numbers that hold integers\<close>

text \<open>Integers of magnitude up to \<open>2 ^ 53\<close> are held exactly.\<close>

lemma binary64_exact:
  assumes "- (2 ^ 53) \<le> x" and "x \<le> 2 ^ 53"
  shows "binary64 x = x"
proof (cases "\<bar>x\<bar> < 2 ^ 53")
  case True
  then have "bitlen \<bar>x\<bar> \<le> 53"
    by (simp add: bitlen_le_iff_power)
  then show ?thesis
    by (simp add: binary64_def)
next
  case False
  with assms have "x = 2 ^ 53 \<or> x = - (2 ^ 53)"
    by auto
  then show ?thesis
  proof
    assume x: "x = 2 ^ 53"
    have "bitlen (1 * 2 ^ 53) = 54"
      by (subst bitlen_pow2) (simp_all add: compute_bitlen)
    then show ?thesis
      by (simp add: binary64_def x Let_def)
  next
    assume x: "x = - (2 ^ 53)"
    have "bitlen (1 * 2 ^ 53) = 54"
      by (subst bitlen_pow2) (simp_all add: compute_bitlen)
    then show ?thesis
      by (simp add: binary64_def x Let_def)
  qed
qed

lemma number_add_one_exact:
  assumes "- (2 ^ 53) \<le> n" and "n < 2 ^ 53"
  shows "number_add n 1 = n + 1"
  using assms by (simp add: number_add_def binary64_exact)

text \<open>At \<open>2 ^ 53\<close> adding 1 changes nothing: \<open>2 ^ 53 + 1\<close> is not held, and the tie goes to \<open>2 ^ 53\<close>.\<close>

lemma bitlen_2_53_plus_1: "bitlen 9007199254740993 = 54"
  by code_simp

lemma number_add_one_at_2_53: "number_add 9007199254740992 1 = 9007199254740992"
  by (simp add: number_add_def binary64_def bitlen_2_53_plus_1 Let_def)

subsection \<open>The progress field along a run\<close>

lemma reducer_progress_bounds:
  assumes "reducer_variant m"
    and "\<forall>p. m = Parsing p \<longrightarrow> 0 \<le> p \<and> p \<le> 100"
    and "0 \<le> progress s \<and> progress s \<le> 100"
  shows "\<exists>s'. reducer s m = Inr s' \<and> 0 \<le> progress s' \<and> progress s' \<le> 100"
  using assms by (cases m) (simp_all add: Let_def)

lemma reduce_all_progress_bounds:
  assumes "\<forall>m \<in> set ms. reducer_variant m"
    and "\<forall>p. Parsing p \<in> set ms \<longrightarrow> 0 \<le> p \<and> p \<le> 100"
    and "0 \<le> progress s \<and> progress s \<le> 100"
  shows "\<exists>s'. reduce_all s ms = Inr s' \<and> 0 \<le> progress s' \<and> progress s' \<le> 100"
  using assms
proof (induction ms arbitrary: s)
  case Nil
  then show ?case by simp
next
  case (Cons m ms)
  from Cons.prems obtain s1
    where s1: "reducer s m = Inr s1" "0 \<le> progress s1 \<and> progress s1 \<le> 100"
    using reducer_progress_bounds [of m s] by auto
  from Cons.prems
  have "\<exists>s'. reduce_all s1 ms = Inr s' \<and> 0 \<le> progress s' \<and> progress s' \<le> 100"
    by (intro Cons.IH s1) auto
  with s1 show ?case by simp
qed

subsection \<open>The reducer, clause by clause\<close>

text \<open>
  Claim C1, as stated, fails in its example: the delimiter token of the source is the
  string \<^verbatim>\<open>DELIMITER_TOKEN\<close>, not \<^verbatim>\<open>#\<close>, so on the payload \<^verbatim>\<open>["a#b","c#d"]\<close> the reducer finds nothing
  to split and the resulting \<open>chunk\<close> is \<^verbatim>\<open>[["a#b"],["c#d"]]\<close>, not \<^verbatim>\<open>[["a","b"],["c","d"]]\<close>.
\<close>

theorem reducer_chunk_counterexample:
  "reducer initialState (Chunk [''a#b'', ''c#d''])
     = Inr (initialState\<lparr>chunk := [[''a#b''], [''c#d'']]\<rparr>)
   \<and> chunk (initialState\<lparr>chunk := [[''a#b''], [''c#d'']]\<rparr>) = [[''a#b''], [''c#d'']]
   \<and> chunk (initialState\<lparr>chunk := [[''a#b''], [''c#d'']]\<rparr>) \<noteq> [[''a'', ''b''], [''c'', ''d'']]"
  by (simp add: Let_def split_string_def DELIMITER_TOKEN_def)

text \<open>
  Claim C1, amended.  A \<^verbatim>\<open>chunk\<close> message overwrites the \<open>chunk\<close> field with the payload's
  strings, each split on the fixed delimiter token, which is the string \<^verbatim>\<open>DELIMITER_TOKEN\<close>,
  and leaves the other four fields as they were.  In particular the payload
  \<^verbatim>\<open>["aDELIMITER_TOKENb","cDELIMITER_TOKENd"]\<close> gives the \<open>chunk\<close> \<^verbatim>\<open>[["a","b"],["c","d"]]\<close>, and the
  payload \<^verbatim>\<open>["a#b","c#d"]\<close>, which does not hold the token, gives \<^verbatim>\<open>[["a#b"],["c#d"]]\<close>.
\<close>

theorem reducer_chunk:
  "reducer s (Chunk payload) =
     Inr (s\<lparr>chunk := map (\<lambda>column. split_string column ''DELIMITER_TOKEN'') payload\<rparr>)
   \<and> (\<exists>s'. reducer s (Chunk payload) = Inr s'
        \<and> chunk s' = map (\<lambda>column. split_string column ''DELIMITER_TOKEN'') payload
        \<and> progress s' = progress s \<and> header s' = header s
        \<and> names s' = names s \<and> result s' = result s)
   \<and> reducer s (Chunk [''aDELIMITER_TOKENb'', ''cDELIMITER_TOKENd''])
        = Inr (s\<lparr>chunk := [[''a'', ''b''], [''c'', ''d'']]\<rparr>)
   \<and> reducer s (Chunk [''a#b'', ''c#d''])
        = Inr (s\<lparr>chunk := [[''a#b''], [''c#d'']]\<rparr>)"
  by (simp add: Let_def split_string_def DELIMITER_TOKEN_def)

text \<open>
  Claim C2.  A \<^verbatim>\<open>parsing\<close> message with payload \<open>p\<close> yields a state whose \<open>progress\<close> is \<open>p\<close>
  and whose \<open>chunk\<close>, \<open>header\<close>, \<open>names\<close> and \<open>result\<close> are those of the state before.
\<close>

theorem reducer_parsing:
  "reducer s (Parsing p) = Inr (s\<lparr>progress := p\<rparr>)
   \<and> (\<exists>s'. reducer s (Parsing p) = Inr s' \<and> progress s' = p
        \<and> chunk s' = chunk s \<and> header s' = header s
        \<and> names s' = names s \<and> result s' = result s)"
  by simp

text \<open>
  Claim C3.  A \<^verbatim>\<open>header\<close> message overwrites only \<open>header\<close>, with the payload as it is; a
  \<^verbatim>\<open>sumCol\<close> message overwrites only \<open>result\<close>, with the payload string; a \<^verbatim>\<open>names\<close> message
  overwrites only \<open>names\<close>, with the payload as it is.
\<close>

theorem reducer_header_sumCol_names:
  "reducer s (Header h) = Inr (s\<lparr>header := h\<rparr>)
   \<and> (\<exists>s'. reducer s (Header h) = Inr s' \<and> header s' = h
        \<and> progress s' = progress s \<and> chunk s' = chunk s
        \<and> names s' = names s \<and> result s' = result s)
   \<and> reducer s (SumCol r) = Inr (s\<lparr>result := r\<rparr>)
   \<and> (\<exists>s'. reducer s (SumCol r) = Inr s' \<and> result s' = r
        \<and> progress s' = progress s \<and> chunk s' = chunk s
        \<and> header s' = header s \<and> names s' = names s)
   \<and> reducer s (Names ns) = Inr (s\<lparr>names := ns\<rparr>)
   \<and> (\<exists>s'. reducer s (Names ns) = Inr s' \<and> names s' = ns
        \<and> progress s' = progress s \<and> chunk s' = chunk s
        \<and> header s' = header s \<and> result s' = result s)"
  by simp

text \<open>
  Claim C4.  On a message whose tag is none of \<^verbatim>\<open>parsing\<close>, \<^verbatim>\<open>chunk\<close>, \<^verbatim>\<open>header\<close>, \<^verbatim>\<open>sumCol\<close>,
  \<^verbatim>\<open>names\<close> the reducer throws: it returns no state, from whatever state it starts.  So does
  \<^verbatim>\<open>dispatch\<close>, the entry point handed out as \<^verbatim>\<open>setWorkerDataState\<close>.
\<close>

theorem reducer_unmatched_throws:
  assumes "msg_type m \<notin> {''parsing'', ''chunk'', ''header'', ''sumCol'', ''names''}"
  shows "reducer s m = Inl (PatternMatchingError m)
     \<and> (\<forall>s'. reducer s m \<noteq> Inr s')
     \<and> dispatch m app = Inl (PatternMatchingError m)"
  using assms by (cases m) (simp_all add: dispatch_def)

theorem reducer_unmatched_throws_witness:
  "msg_type (AddFilter [''a'']) \<notin> {''parsing'', ''chunk'', ''header'', ''sumCol'', ''names''}
   \<and> reducer initialState (AddFilter [''a'']) = Inl (PatternMatchingError (AddFilter [''a'']))
   \<and> dispatch (AddFilter [''a'']) initialApp = Inl (PatternMatchingError (AddFilter [''a'']))"
  using reducer_unmatched_throws [of "AddFilter [''a'']" initialState initialApp] by simp

text \<open>
  Claim C8.  Reducing the same \<^verbatim>\<open>header\<close> message twice in a row ends in the state that
  reducing it once ends in.
\<close>

theorem reducer_header_idempotent:
  "reduce_all s [Header h, Header h] = reduce_all s [Header h]
   \<and> (\<exists>s'. reducer s (Header h) = Inr s' \<and> reducer s' (Header h) = Inr s')"
  by simp

text \<open>
  Claim C9.  After a \<^verbatim>\<open>chunk\<close> message the \<open>chunk\<close> field has one row per payload string, in
  the payload's order, and joining row \<open>i\<close> on the token \<^verbatim>\<open>DELIMITER_TOKEN\<close> gives back payload
  string \<open>i\<close>: the reducer's split is a right inverse of joining on the token.
\<close>

theorem reducer_chunk_join:
  "\<exists>s'. reducer s (Chunk ps) = Inr s'
     \<and> length (chunk s') = length ps
     \<and> (\<forall>i < length ps. join (chunk s' ! i) DELIMITER_TOKEN = ps ! i)
     \<and> map (\<lambda>row. join row DELIMITER_TOKEN) (chunk s') = ps"
  by (simp add: Let_def join_split_string map_idI)

theorem reducer_chunk_join_witness:
  "\<exists>s'. reducer initialState (Chunk [''aDELIMITER_TOKENb'', ''c'']) = Inr s'
     \<and> length (chunk s') = 2
     \<and> join (chunk s' ! 0) DELIMITER_TOKEN = ''aDELIMITER_TOKENb''
     \<and> join (chunk s' ! 1) DELIMITER_TOKEN = ''c''
     \<and> chunk s' = [[''a'', ''b''], [''c'']]"
  using reducer_chunk_join [of initialState "[''aDELIMITER_TOKENb'', ''c'']"]
  by (simp add: Let_def split_string_def DELIMITER_TOKEN_def)

subsection \<open>The progress field over a run of messages\<close>

text \<open>
  Claim C7, as stated, fails: the reducer stores the payload of a \<^verbatim>\<open>parsing\<close> message
  unchecked, so from the initial state the one message \<^verbatim>\<open>parsing{progress: 150}\<close> leads to a
  state whose \<open>progress\<close> is 150.
\<close>

theorem progress_range_counterexample:
  "reducer_variant (Parsing 150)
   \<and> reduce_all initialState [Parsing 150] = Inr (initialState\<lparr>progress := 150\<rparr>)
   \<and> progress (initialState\<lparr>progress := 150\<rparr>) = 150
   \<and> \<not> progress (initialState\<lparr>progress := 150\<rparr>) \<le> 100"
  by simp

text \<open>
  Claim C7, amended.  Folding the reducer from the initial state over any sequence of
  messages it has a clause for, in which every \<^verbatim>\<open>parsing\<close> payload lies between 0 and 100
  inclusive, returns a state, and the \<open>progress\<close> of that state lies between 0 and 100
  inclusive.
\<close>

theorem progress_range_of_payloads:
  assumes "\<forall>m \<in> set ms. reducer_variant m"
    and "\<forall>p. Parsing p \<in> set ms \<longrightarrow> 0 \<le> p \<and> p \<le> 100"
  shows "\<exists>s. reduce_all initialState ms = Inr s \<and> 0 \<le> progress s \<and> progress s \<le> 100"
  using assms by (intro reduce_all_progress_bounds) (simp_all add: initialState_def)

theorem progress_range_of_payloads_witness:
  "reducer_variant (Parsing 50) \<and> reducer_variant (Header [''col1'', ''col2''])
   \<and> (0::real) \<le> 50 \<and> (50::real) \<le> 100
   \<and> reduce_all initialState [Parsing 50, Header [''col1'', ''col2'']]
       = Inr \<lparr>progress = 50, chunk = [], header = [''col1'', ''col2''], names = [], result = []\<rparr>
   \<and> (\<exists>s. reduce_all initialState [Parsing 50, Header [''col1'', ''col2'']] = Inr s
         \<and> 0 \<le> progress s \<and> progress s \<le> 100)"
  using progress_range_of_payloads [of "[Parsing 50, Header [''col1'', ''col2'']]"]
  by (simp add: initialState_def)

subsection \<open>The message handler\<close>

text \<open>
  Claim C5.  On a message whose tag is none of the six recognized ones the handler writes
  one line to the console and returns normally; the reducer state, the metadata and the
  data status are what they were.
\<close>

theorem onmessage_unrecognized:
  assumes "msg_type m \<notin> {''parsing'', ''chunk'', ''header'', ''sumCol'', ''names'', ''addFilter''}"
  shows "onmessage app m = Inr (app\<lparr>console := console app @ [''Unexpected action'']\<rparr>)
     \<and> (\<exists>app'. onmessage app m = Inr app' \<and> state app' = state app
          \<and> metadata app' = metadata app \<and> dataStatus app' = dataStatus app)"
  using assms by (cases m) (simp_all add: console_log_def)

theorem onmessage_unrecognized_witness:
  "msg_type (Other ''done'')
     \<notin> {''parsing'', ''chunk'', ''header'', ''sumCol'', ''names'', ''addFilter''}
   \<and> onmessage initialApp (Other ''done'')
       = Inr (initialApp\<lparr>console := [''Unexpected action'']\<rparr>)"
  using onmessage_unrecognized [of "Other ''done''" initialApp] by (simp add: initialApp_def)

text \<open>
  Claim C6, as stated, fails: \<^verbatim>\<open>metadata.selectedId + 1\<close> is an addition of numbers, and a
  number that holds \<open>2 ^ 53 = 9007199254740992\<close> is unchanged by adding 1.  On a metadata with
  that \<open>selectedId\<close> the handler hands the names to the reducer and leaves the counter where
  it was.
\<close>

theorem onmessage_addFilter_counterexample:
  "onmessage
     (initialApp\<lparr>metadata :=
        \<lparr>headerChecked = True, headerCheckBoxDisabled = False, selectedId = 9007199254740992\<rparr>\<rparr>)
     (AddFilter [''a''])
     = Inr (initialApp\<lparr>metadata :=
              \<lparr>headerChecked = True, headerCheckBoxDisabled = False,
               selectedId = 9007199254740992\<rparr>,
            state := initialState\<lparr>names := [''a'']\<rparr>\<rparr>)
   \<and> (9007199254740992 :: int) \<noteq> 9007199254740992 + 1"
  by (simp add: dispatch_def setMetadata_def initialApp_def number_add_one_at_2_53)

text \<open>
  Claim C6, amended.  On an \<^verbatim>\<open>addFilter\<close> message with payload \<^verbatim>\<open>{names: ns}\<close>, received when
  the metadata's \<open>selectedId\<close> is an integer \<open>n\<close> with \<open>- (2 ^ 53) \<le> n < 2 ^ 53\<close>, the handler
  sets \<open>selectedId\<close> to \<open>n + 1\<close> and hands \<open>ns\<close> to the reducer as a \<^verbatim>\<open>names\<close> message,
  so that the reducer's \<open>names\<close> field becomes \<open>ns\<close>; for \<^verbatim>\<open>{names: ["a"]}\<close> it becomes \<^verbatim>\<open>["a"]\<close>.
  The names are handed on whatever the counter is.
\<close>

theorem onmessage_addFilter:
  assumes "- (2 ^ 53) \<le> selectedId (metadata app)" and "selectedId (metadata app) < 2 ^ 53"
  shows "onmessage app (AddFilter ns) =
     Inr (app\<lparr>metadata := (metadata app)\<lparr>selectedId := selectedId (metadata app) + 1\<rparr>,
              state := (state app)\<lparr>names := ns\<rparr>\<rparr>)
   \<and> onmessage app (AddFilter ns) =
       onmessage (setMetadata ((metadata app)\<lparr>selectedId := selectedId (metadata app) + 1\<rparr>) app)
         (Names ns)
   \<and> (\<exists>app'. onmessage app (AddFilter ns) = Inr app'
        \<and> selectedId (metadata app') = selectedId (metadata app) + 1
        \<and> names (state app') = ns)
   \<and> (\<exists>app'. onmessage app (AddFilter [''a'']) = Inr app'
        \<and> selectedId (metadata app') = selectedId (metadata app) + 1
        \<and> names (state app') = [''a''])"
  using number_add_one_exact [OF assms] by (simp add: dispatch_def setMetadata_def)

theorem onmessage_addFilter_witness:
  "- (2 ^ 53) \<le> selectedId (metadata initialApp) \<and> selectedId (metadata initialApp) < 2 ^ 53
   \<and> onmessage initialApp (AddFilter [''a''])
       = Inr (initialApp\<lparr>metadata :=
                \<lparr>headerChecked = True, headerCheckBoxDisabled = False, selectedId = 1\<rparr>,
              state := initialState\<lparr>names := [''a'']\<rparr>\<rparr>)"
  using onmessage_addFilter [of initialApp "[''a'']"] by (simp add: initialApp_def)

text \<open>
  Claim C10.  Handling an \<^verbatim>\<open>addFilter\<close> message leaves \<open>headerChecked\<close> and
  \<open>headerCheckBoxDisabled\<close> of the metadata as they were: the new metadata is the old one
  with \<open>selectedId\<close> replaced, by the number that \<^verbatim>\<open>metadata.selectedId + 1\<close> evaluates to.
\<close>

theorem onmessage_addFilter_metadata_frame:
  "\<exists>app'. onmessage app (AddFilter ns) = Inr app'
     \<and> headerChecked (metadata app') = headerChecked (metadata app)
     \<and> headerCheckBoxDisabled (metadata app') = headerCheckBoxDisabled (metadata app)
     \<and> metadata app' = (metadata app)\<lparr>selectedId := selectedId (metadata app')\<rparr>
     \<and> metadata app' = (metadata app)\<lparr>selectedId := number_add (selectedId (metadata app)) 1\<rparr>"
  by (simp add: dispatch_def setMetadata_def)

end
